theory Spec2Isabelle
  imports Main
begin

section \<open>The persistence layer of Progress Buddy (class ProgressBuddyDB)\<close>

text \<open>
  The class wraps one SQLite connection (\<^verbatim>\<open>this.db\<close>) and issues parameterised SQL
  statements against three tables. The embedding keeps the class's methods as state
  transformers on the store; a raised exception (or a rejected promise of an
  \<^verbatim>\<open>async\<close> method) is the value \<open>Inl e\<close>. Each SQL text of the source, together
  with its bound parameters, is represented by its meaning on the database contents.

  Conventions of the model:
  \<^item> the values of INTEGER columns are mathematical integers. A target value or a
    progress value comes in as a JavaScript number or as a BigInt, and a stored target
    is read back as a JavaScript number: both steps are modelled below, with the 64-bit
    range of the engine and the 53 significant bits of a number. Row identifiers are
    taken as the integers they denote;
  \<^item> a TEXT parameter is \<open>Some text\<close>, and \<open>None\<close> stands for both \<^verbatim>\<open>null\<close> and an
    absent property (bound as SQL NULL);
  \<^item> \<^verbatim>\<open>CURRENT_TIMESTAMP\<close> is the reading \<open>now\<close> of the clock, passed to every statement
    that mentions it, as a number of seconds (the engine's text format
    \<^verbatim>\<open>YYYY-MM-DD HH:MM:SS\<close> is ordered the same way);
  \<^item> console output is not modelled.
\<close>

subsection \<open>Failures\<close>

datatype sqlite_code =
    SQLITE_ERROR
  | SQLITE_CONSTRAINT_NOTNULL
  | SQLITE_CONSTRAINT_FOREIGNKEY

text \<open>
  \<open>SqliteError\<close> is the driver's exception for a failing statement; \<open>TypeError\<close> is the
  JavaScript run-time failure of reading a property of \<^verbatim>\<open>null\<close> or \<^verbatim>\<open>undefined\<close>,
  and the driver's failure on a connection that has been closed. \<open>RangeError\<close> is the
  driver's refusal to bind a BigInt that does not fit 64 bits. \<open>Error\<close> is any other
  exception, identified by its message: one thrown by a caller's unit of work, or by
  the file system when the database file cannot be opened. The source defines no
  exception classes of its own.
\<close>

datatype error = SqliteError sqlite_code | TypeError | RangeError | Error string

subsection \<open>Integers as JavaScript hands them over\<close>

text \<open>
  An integer argument is either a number (a double whose value is the integer) or a
  BigInt. \<open>Number n\<close> stands for the number whose value is \<open>n\<close>; there is such a number
  exactly when \<open>n\<close> has at most 53 significant bits and lies within the range of a
  double (\<open>js_valid\<close>). Every \<open>BigInt n\<close> exists.
\<close>

datatype js_integer = Number int | BigInt int

fun integer_value :: "js_integer \<Rightarrow> int" where
  "integer_value (Number n) = n"
| "integer_value (BigInt n) = n"

text \<open>The number of binary digits of a natural number.\<close>

fun bit_length :: "nat \<Rightarrow> nat" where
  "bit_length n = (if n = 0 then 0 else Suc (bit_length (n div 2)))"

declare bit_length.simps [simp del]

text \<open>
  The double nearest to an integer, as the driver computes it when it hands an INTEGER
  column to JavaScript as a number: the integer is rounded to 53 significant bits, a tie
  going to the even neighbour. Integers of up to 53 bits come through unchanged.
\<close>

definition to_double :: "int \<Rightarrow> int" where
  "to_double n =
     (let a = \<bar>n\<bar>; k = bit_length (nat a)
      in if k \<le> 53 then n
         else let u = 2 ^ (k - 53); q = a div u; r = a mod u;
                  q' = (if u < 2 * r \<or> (2 * r = u \<and> odd q) then q + 1 else q)
              in sgn n * (q' * u))"

fun js_valid :: "js_integer \<Rightarrow> bool" where
  "js_valid (Number n) = (to_double n = n \<and> \<bar>n\<bar> < 2 ^ 1024)"
| "js_valid (BigInt n) = True"

text \<open>
  Binding a parameter: a number is bound as a double and the column keeps its value (as
  an INTEGER when it fits, as a REAL otherwise); a BigInt is bound as a 64-bit integer,
  and refused when it does not fit.
\<close>

fun bind_integer :: "js_integer \<Rightarrow> error + int" where
  "bind_integer (Number n) = Inr n"
| "bind_integer (BigInt n) =
     (if - (2 ^ 63) \<le> n \<and> n < 2 ^ 63 then Inr n else Inl RangeError)"

subsection \<open>Rows of the three tables (the CREATE TABLE statements of createTables)\<close>

text \<open>
  The TEXT columns of activities hold \<open>None\<close> for NULL, the four that are declared
  NOT NULL included: that declaration is enforced by the statements below, not by the
  type of the rows. The other columns hold plain values, since the statements of the
  source always fill them: from a default (completed, current_value, achieved), from the
  clock (created_at, updated_at), from the AUTOINCREMENT counter (id), or from a
  parameter that the INSERT refuses when it is NULL (activity_id, text, target_value).
  completed and achieved are stored as the integers 0 and 1.
\<close>

record activity_row =
  a_id :: int
  a_name :: "string option"
  a_description :: "string option"
  a_specific :: "string option"
  a_measurable :: "string option"
  a_achievable :: "string option"
  a_relevant :: "string option"
  a_timebound :: "string option"
  a_buddy_email :: "string option"
  a_completed :: int
  a_created_at :: nat
  a_updated_at :: nat

record log_row =
  l_id :: int
  l_activity_id :: int
  l_text :: string
  l_metrics :: "string option"
  l_created_at :: nat

record goal_row =
  g_id :: int
  g_activity_id :: int
  g_target_value :: int
  g_current_value :: int
  g_target_date :: "string option"
  g_achieved :: int
  g_created_at :: nat

text \<open>
  The contents of the database file: the rows of each table in rowid order, and the
  AUTOINCREMENT counters (the engine's \<^verbatim>\<open>sqlite_sequence\<close> table).
\<close>

record database =
  activities :: "activity_row list"
  logs :: "log_row list"
  goals :: "goal_row list"
  seq_activities :: int
  seq_logs :: int
  seq_goals :: int

definition empty_database :: database where
  "empty_database =
     \<lparr>activities = [], logs = [], goals = [],
      seq_activities = 0, seq_logs = 0, seq_goals = 0\<rparr>"

text \<open>
  One connection: the contents it sees, the image to restore on ROLLBACK (\<open>None\<close>
  outside a transaction), the foreign-key pragma, whether it is still open, and the
  rowid of the last successful INSERT.
\<close>

record connection =
  content :: database
  snapshot :: "database option"
  foreign_keys :: bool
  is_open :: bool
  last_insert_rowid :: int

text \<open>The object itself: \<^verbatim>\<open>this.db\<close>, \<^verbatim>\<open>null\<close> until init has run.\<close>

record store =
  db :: "connection option"

text \<open>\<^verbatim>\<open>constructor() { this.db = null; }\<close>\<close>

definition constructor :: store where
  "constructor = \<lparr>db = None\<rparr>"

subsection \<open>The objects the callers pass in\<close>

text \<open>
  The argument of createActivity and updateActivity. The methods read the first eight
  properties; \<open>completed\<close> is a property a caller may send along with them, which no
  statement of the source reads.
\<close>

record activity =
  name :: "string option"
  description :: "string option"
  specific :: "string option"
  measurable :: "string option"
  achievable :: "string option"
  relevant :: "string option"
  timebound :: "string option"
  buddy_email :: "string option"
  completed :: bool

record log =
  log_activity_id :: "int option"
  log_text :: "string option"
  log_metrics :: "string option"

record goal =
  goal_activity_id :: "int option"
  goal_target_value :: "js_integer option"
  goal_target_date :: "string option"

subsection \<open>The meaning of the SQL statements of the source\<close>

text \<open>
  A mutating statement, with its parameters, maps the foreign-key setting and the
  contents to a failure (a parameter the driver refuses to bind, or a constraint), or
  to the rowid it inserted (if any), the number of rows it changed directly, and the
  new contents. Parameters are bound before the statement runs. A failing statement
  changes nothing (the engine undoes it).
\<close>

type_synonym statement = "bool \<Rightarrow> database \<Rightarrow> error + (int option \<times> nat \<times> database)"

text \<open>
  \<^verbatim>\<open>INTEGER PRIMARY KEY AUTOINCREMENT\<close>: one more than the largest rowid the table
  has ever held.
\<close>

definition next_rowid :: "int list \<Rightarrow> int \<Rightarrow> int" where
  "next_rowid ids seq = fold max ids seq + 1"

text \<open>
  \<^verbatim>\<open>INSERT INTO activities (name, description, specific, measurable, achievable,
  relevant, timebound, buddy_email) VALUES (?, ?, ?, ?, ?, ?, ?, ?)\<close>;
  name, specific, measurable and timebound are NOT NULL; completed defaults to 0 and
  both timestamps to CURRENT_TIMESTAMP.
\<close>

definition INSERT_INTO_activities ::
  "string option \<Rightarrow> string option \<Rightarrow> string option \<Rightarrow> string option \<Rightarrow>
   string option \<Rightarrow> string option \<Rightarrow> string option \<Rightarrow> string option \<Rightarrow> nat \<Rightarrow> statement" where
  "INSERT_INTO_activities p1 p2 p3 p4 p5 p6 p7 p8 now fk d =
     (if p1 = None \<or> p3 = None \<or> p4 = None \<or> p7 = None
      then Inl (SqliteError SQLITE_CONSTRAINT_NOTNULL)
      else
        let rowid = next_rowid (map a_id (activities d)) (seq_activities d);
            row = \<lparr>a_id = rowid, a_name = p1, a_description = p2, a_specific = p3,
                   a_measurable = p4, a_achievable = p5, a_relevant = p6,
                   a_timebound = p7, a_buddy_email = p8, a_completed = 0,
                   a_created_at = now, a_updated_at = now\<rparr>
        in Inr (Some rowid, 1,
                d\<lparr>activities := activities d @ [row], seq_activities := rowid\<rparr>))"

text \<open>
  \<^verbatim>\<open>UPDATE activities SET name = ?, description = ?, specific = ?, measurable = ?,
  achievable = ?, relevant = ?, timebound = ?, buddy_email = ?,
  updated_at = CURRENT_TIMESTAMP WHERE id = ?\<close>;
  the NOT NULL columns are checked on the rows the statement rewrites.
\<close>

definition UPDATE_activities ::
  "string option \<Rightarrow> string option \<Rightarrow> string option \<Rightarrow> string option \<Rightarrow>
   string option \<Rightarrow> string option \<Rightarrow> string option \<Rightarrow> string option \<Rightarrow> int \<Rightarrow> nat \<Rightarrow> statement" where
  "UPDATE_activities p1 p2 p3 p4 p5 p6 p7 p8 p9 now fk d =
     (let hits = filter (\<lambda>r. a_id r = p9) (activities d) in
      if hits \<noteq> [] \<and> (p1 = None \<or> p3 = None \<or> p4 = None \<or> p7 = None)
      then Inl (SqliteError SQLITE_CONSTRAINT_NOTNULL)
      else Inr (None, length hits,
                d\<lparr>activities :=
                    map (\<lambda>r. if a_id r = p9
                              then r\<lparr>a_name := p1, a_description := p2, a_specific := p3,
                                     a_measurable := p4, a_achievable := p5,
                                     a_relevant := p6, a_timebound := p7,
                                     a_buddy_email := p8, a_updated_at := now\<rparr>
                              else r)
                        (activities d)\<rparr>))"

text \<open>
  \<^verbatim>\<open>DELETE FROM activities WHERE id = ?\<close>. With foreign keys enforced, deleting a
  parent row deletes the logs and goals that reference it
  (\<^verbatim>\<open>ON DELETE CASCADE\<close>); the count of changes covers the activities only.
\<close>

definition DELETE_FROM_activities :: "int \<Rightarrow> statement" where
  "DELETE_FROM_activities p1 fk d =
     (let n = length (filter (\<lambda>r. a_id r = p1) (activities d));
          cascade = (fk \<and> 0 < n)
      in Inr (None, n,
              d\<lparr>activities := filter (\<lambda>r. a_id r \<noteq> p1) (activities d),
                logs := (if cascade then filter (\<lambda>l. l_activity_id l \<noteq> p1) (logs d)
                         else logs d),
                goals := (if cascade then filter (\<lambda>g. g_activity_id g \<noteq> p1) (goals d)
                          else goals d)\<rparr>))"

text \<open>
  \<^verbatim>\<open>INSERT INTO logs (activity_id, text, metrics) VALUES (?, ?, ?)\<close>;
  activity_id and text are NOT NULL, and activity_id references activities (id). The
  NOT NULL columns are checked before the foreign key.
\<close>

definition INSERT_INTO_logs ::
  "int option \<Rightarrow> string option \<Rightarrow> string option \<Rightarrow> nat \<Rightarrow> statement" where
  "INSERT_INTO_logs p1 p2 p3 now fk d =
     (case (p1, p2) of
        (Some aid, Some txt) \<Rightarrow>
          if fk \<and> aid \<notin> set (map a_id (activities d))
          then Inl (SqliteError SQLITE_CONSTRAINT_FOREIGNKEY)
          else
            let rowid = next_rowid (map l_id (logs d)) (seq_logs d);
                row = \<lparr>l_id = rowid, l_activity_id = aid, l_text = txt,
                       l_metrics = p3, l_created_at = now\<rparr>
            in Inr (Some rowid, 1, d\<lparr>logs := logs d @ [row], seq_logs := rowid\<rparr>)
      | _ \<Rightarrow> Inl (SqliteError SQLITE_CONSTRAINT_NOTNULL))"

text \<open>
  \<^verbatim>\<open>INSERT INTO goals (activity_id, target_value, target_date) VALUES (?, ?, ?)\<close>;
  current_value and achieved default to 0.
\<close>

definition INSERT_INTO_goals ::
  "int option \<Rightarrow> js_integer option \<Rightarrow> string option \<Rightarrow> nat \<Rightarrow> statement" where
  "INSERT_INTO_goals p1 p2 p3 now fk d =
     (case map_option bind_integer p2 of
        Some (Inl e) \<Rightarrow> Inl e
      | Some (Inr target) \<Rightarrow>
          (case p1 of
             Some aid \<Rightarrow>
               if fk \<and> aid \<notin> set (map a_id (activities d))
               then Inl (SqliteError SQLITE_CONSTRAINT_FOREIGNKEY)
               else
                 let rowid = next_rowid (map g_id (goals d)) (seq_goals d);
                     row = \<lparr>g_id = rowid, g_activity_id = aid, g_target_value = target,
                            g_current_value = 0, g_target_date = p3, g_achieved = 0,
                            g_created_at = now\<rparr>
                 in Inr (Some rowid, 1, d\<lparr>goals := goals d @ [row], seq_goals := rowid\<rparr>)
           | None \<Rightarrow> Inl (SqliteError SQLITE_CONSTRAINT_NOTNULL))
      | None \<Rightarrow> Inl (SqliteError SQLITE_CONSTRAINT_NOTNULL))"

text \<open>\<^verbatim>\<open>UPDATE goals SET current_value = ?, achieved = ? WHERE id = ?\<close>\<close>

definition UPDATE_goals :: "js_integer \<Rightarrow> int \<Rightarrow> int \<Rightarrow> statement" where
  "UPDATE_goals p1 p2 p3 fk d =
     (case bind_integer p1 of
        Inl e \<Rightarrow> Inl e
      | Inr v \<Rightarrow>
          Inr (None, length (filter (\<lambda>g. g_id g = p3) (goals d)),
               d\<lparr>goals := map (\<lambda>g. if g_id g = p3
                                    then g\<lparr>g_current_value := v, g_achieved := p2\<rparr>
                                    else g)
                              (goals d)\<rparr>))"

text \<open>
  \<^verbatim>\<open>ORDER BY created_at DESC\<close>: the rows, scanned in rowid order, are put in
  descending order of the key. Rows with equal keys are left in scan order here; the
  engine promises no particular order among them.
\<close>

fun insert_desc :: "('r \<Rightarrow> nat) \<Rightarrow> 'r \<Rightarrow> 'r list \<Rightarrow> 'r list" where
  "insert_desc k x [] = [x]"
| "insert_desc k x (y # ys) = (if k y < k x then x # y # ys else y # insert_desc k x ys)"

definition ORDER_BY_DESC :: "('r \<Rightarrow> nat) \<Rightarrow> 'r list \<Rightarrow> 'r list" where
  "ORDER_BY_DESC k rows = fold (insert_desc k) rows []"

text \<open>\<^verbatim>\<open>SELECT * FROM activities ORDER BY created_at DESC\<close>\<close>

definition SELECT_activities :: "database \<Rightarrow> activity_row list" where
  "SELECT_activities d = ORDER_BY_DESC a_created_at (activities d)"

text \<open>\<^verbatim>\<open>SELECT * FROM logs WHERE activity_id = ? ORDER BY created_at DESC\<close>\<close>

definition SELECT_logs :: "int \<Rightarrow> database \<Rightarrow> log_row list" where
  "SELECT_logs p1 d = ORDER_BY_DESC l_created_at (filter (\<lambda>l. l_activity_id l = p1) (logs d))"

text \<open>\<^verbatim>\<open>SELECT * FROM goals WHERE activity_id = ? ORDER BY created_at DESC\<close>\<close>

definition SELECT_goals :: "int \<Rightarrow> database \<Rightarrow> goal_row list" where
  "SELECT_goals p1 d = ORDER_BY_DESC g_created_at (filter (\<lambda>g. g_activity_id g = p1) (goals d))"

text \<open>
  \<^verbatim>\<open>SELECT target_value FROM goals WHERE id = ?\<close>, read with \<^verbatim>\<open>get\<close>: the first
  matching row, or nothing (\<^verbatim>\<open>undefined\<close>). The row reaches JavaScript with its
  target_value as a number.
\<close>

definition SELECT_target_value :: "int \<Rightarrow> database \<Rightarrow> int option" where
  "SELECT_target_value p1 d =
     map_option (\<lambda>g. to_double (g_target_value g)) (find (\<lambda>g. g_id g = p1) (goals d))"

text \<open>\<^verbatim>\<open>BEGIN TRANSACTION\<close>, \<^verbatim>\<open>COMMIT\<close> and \<^verbatim>\<open>ROLLBACK\<close>, run with \<^verbatim>\<open>this.db.exec\<close>.\<close>

datatype control = BEGIN_TRANSACTION | COMMIT | ROLLBACK

fun control_step :: "control \<Rightarrow> connection \<Rightarrow> error + connection" where
  "control_step BEGIN_TRANSACTION c =
     (case snapshot c of
        None \<Rightarrow> Inr (c\<lparr>snapshot := Some (content c)\<rparr>)
      | Some d \<Rightarrow> Inl (SqliteError SQLITE_ERROR))"
| "control_step COMMIT c =
     (case snapshot c of
        None \<Rightarrow> Inl (SqliteError SQLITE_ERROR)
      | Some d \<Rightarrow> Inr (c\<lparr>snapshot := None\<rparr>))"
| "control_step ROLLBACK c =
     (case snapshot c of
        None \<Rightarrow> Inl (SqliteError SQLITE_ERROR)
      | Some d \<Rightarrow> Inr (c\<lparr>content := d, snapshot := None\<rparr>))"

definition exec :: "control \<Rightarrow> store \<Rightarrow> (error + unit) \<times> store" where
  "exec sql s =
     (case db s of
        None \<Rightarrow> (Inl TypeError, s)
      | Some c \<Rightarrow>
          if is_open c
          then (case control_step sql c of
                  Inl e \<Rightarrow> (Inl e, s)
                | Inr c' \<Rightarrow> (Inr (), s\<lparr>db := Some c'\<rparr>))
          else (Inl TypeError, s))"

subsection \<open>init and createTables\<close>

text \<open>
  \<^verbatim>\<open>new Database(dbPath)\<close> either fails or opens the file; what it finds there is
  the argument \<open>file\<close>. The pragma has no effect inside a transaction. The three
  \<^verbatim>\<open>CREATE TABLE IF NOT EXISTS\<close> leave the rows of an existing file as they are.
\<close>

definition connect :: "database \<Rightarrow> connection" where
  "connect d =
     \<lparr>content = d, snapshot = None, foreign_keys = False, is_open = True,
      last_insert_rowid = 0\<rparr>"

definition pragma_foreign_keys_ON :: "connection \<Rightarrow> connection" where
  "pragma_foreign_keys_ON c = (if snapshot c = None then c\<lparr>foreign_keys := True\<rparr> else c)"

definition createTables :: "store \<Rightarrow> (error + bool) \<times> store" where
  "createTables s =
     (case db s of
        None \<Rightarrow> (Inl TypeError, s)
      | Some c \<Rightarrow>
          if is_open c then (Inr True, s\<lparr>db := Some (pragma_foreign_keys_ON c)\<rparr>)
          else (Inl TypeError, s))"

definition init :: "error + database \<Rightarrow> store \<Rightarrow> (error + bool) \<times> store" where
  "init file s =
     (case file of
        Inl e \<Rightarrow> (Inl e, s)
      | Inr d \<Rightarrow> createTables (s\<lparr>db := Some (connect d)\<rparr>))"

subsection \<open>The generic query methods get, all and run\<close>

text \<open>
  \<^verbatim>\<open>this.db.prepare(sql)\<close> fails with a TypeError on the null handle and on a closed
  connection; every failure is rethrown to the caller.
\<close>

definition get :: "(database \<Rightarrow> 'r option) \<Rightarrow> store \<Rightarrow> (error + 'r option) \<times> store" where
  "get sql s =
     (case db s of
        None \<Rightarrow> (Inl TypeError, s)
      | Some c \<Rightarrow> if is_open c then (Inr (sql (content c)), s) else (Inl TypeError, s))"

definition all :: "(database \<Rightarrow> 'r list) \<Rightarrow> store \<Rightarrow> (error + 'r list) \<times> store" where
  "all sql s =
     (case db s of
        None \<Rightarrow> (Inl TypeError, s)
      | Some c \<Rightarrow> if is_open c then (Inr (sql (content c)), s) else (Inl TypeError, s))"

text \<open>\<^verbatim>\<open>return { id: result.lastInsertRowid, changes: result.changes }\<close>\<close>

record run_result =
  id' :: int
  changes :: nat

definition run :: "statement \<Rightarrow> store \<Rightarrow> (error + run_result) \<times> store" where
  "run sql s =
     (case db s of
        None \<Rightarrow> (Inl TypeError, s)
      | Some c \<Rightarrow>
          if is_open c
          then (case sql (foreign_keys c) (content c) of
                  Inl e \<Rightarrow> (Inl e, s)
                | Inr (inserted, n, d) \<Rightarrow>
                    let rowid = (case inserted of None \<Rightarrow> last_insert_rowid c | Some r \<Rightarrow> r)
                    in (Inr \<lparr>id' = rowid, changes = n\<rparr>,
                        s\<lparr>db := Some (c\<lparr>content := d, last_insert_rowid := rowid\<rparr>)\<rparr>))
          else (Inl TypeError, s))"

subsection \<open>transaction\<close>

text \<open>
  \<^verbatim>\<open>try { BEGIN; result = callback(); COMMIT; return result }
  catch (error) { ROLLBACK; throw error }\<close>.
  A failure of the ROLLBACK in the handler replaces the failure that was caught. The
  callback is called synchronously: \<open>Inl e\<close> is an exception it throws during the call,
  and a callback that hands back a promise has returned normally.
\<close>

definition rollback_and_rethrow :: "error \<Rightarrow> store \<Rightarrow> (error + 'a) \<times> store" where
  "rollback_and_rethrow e s =
     (case exec ROLLBACK s of
        (Inl e', s') \<Rightarrow> (Inl e', s')
      | (Inr u, s') \<Rightarrow> (Inl e, s'))"

definition transaction ::
  "(store \<Rightarrow> (error + 'a) \<times> store) \<Rightarrow> store \<Rightarrow> (error + 'a) \<times> store" where
  "transaction callback s =
     (case exec BEGIN_TRANSACTION s of
        (Inl e, s1) \<Rightarrow> rollback_and_rethrow e s1
      | (Inr u, s1) \<Rightarrow>
          (case callback s1 of
             (Inl e, s2) \<Rightarrow> rollback_and_rethrow e s2
           | (Inr result, s2) \<Rightarrow>
               (case exec COMMIT s2 of
                  (Inl e, s3) \<Rightarrow> rollback_and_rethrow e s3
                | (Inr u', s3) \<Rightarrow> (Inr result, s3))))"

subsection \<open>close\<close>

text \<open>
  \<^verbatim>\<open>if (this.db) { this.db.close(); }\<close>: closing ends an open transaction by
  rolling it back; closing a closed connection does nothing. The handle stays in
  \<^verbatim>\<open>this.db\<close>.
\<close>

definition close_connection :: "connection \<Rightarrow> connection" where
  "close_connection c =
     (if is_open c
      then c\<lparr>content := (case snapshot c of None \<Rightarrow> content c | Some d \<Rightarrow> d),
             snapshot := None, is_open := False\<rparr>
      else c)"

definition close :: "store \<Rightarrow> (error + unit) \<times> store" where
  "close s =
     (case db s of
        None \<Rightarrow> (Inr (), s)
      | Some c \<Rightarrow> (Inr (), s\<lparr>db := Some (close_connection c)\<rparr>))"

subsection \<open>Activity, log and goal methods\<close>

definition getAllActivities :: "store \<Rightarrow> (error + activity_row list) \<times> store" where
  "getAllActivities s = all SELECT_activities s"

definition createActivity :: "activity \<Rightarrow> nat \<Rightarrow> store \<Rightarrow> (error + run_result) \<times> store" where
  "createActivity a now s =
     run (INSERT_INTO_activities (name a) (description a) (specific a) (measurable a)
            (achievable a) (relevant a) (timebound a) (buddy_email a) now) s"

definition updateActivity ::
  "int \<Rightarrow> activity \<Rightarrow> nat \<Rightarrow> store \<Rightarrow> (error + run_result) \<times> store" where
  "updateActivity i a now s =
     run (UPDATE_activities (name a) (description a) (specific a) (measurable a)
            (achievable a) (relevant a) (timebound a) (buddy_email a) i now) s"

definition deleteActivity :: "int \<Rightarrow> store \<Rightarrow> (error + run_result) \<times> store" where
  "deleteActivity i s = run (DELETE_FROM_activities i) s"

definition getLogsByActivity :: "int \<Rightarrow> store \<Rightarrow> (error + log_row list) \<times> store" where
  "getLogsByActivity activityId s = all (SELECT_logs activityId) s"

definition createLog :: "log \<Rightarrow> nat \<Rightarrow> store \<Rightarrow> (error + run_result) \<times> store" where
  "createLog l now s =
     run (INSERT_INTO_logs (log_activity_id l) (log_text l) (log_metrics l) now) s"

definition getGoalsByActivity :: "int \<Rightarrow> store \<Rightarrow> (error + goal_row list) \<times> store" where
  "getGoalsByActivity activityId s = all (SELECT_goals activityId) s"

definition createGoal :: "goal \<Rightarrow> nat \<Rightarrow> store \<Rightarrow> (error + run_result) \<times> store" where
  "createGoal g now s =
     run (INSERT_INTO_goals (goal_activity_id g) (goal_target_value g) (goal_target_date g) now) s"

text \<open>
  \<^verbatim>\<open>const achieved = currentValue >= this.get(..., [goalId]).target_value;
  return this.run(sql, [currentValue, achieved ? 1 : 0, goalId]);\<close>
  When the read finds no row, \<^verbatim>\<open>get\<close> returns \<^verbatim>\<open>undefined\<close> and reading its
  \<^verbatim>\<open>target_value\<close> raises a TypeError before anything is written. The comparison
  is between the value of \<^verbatim>\<open>currentValue\<close> and the number that the read returned;
  JavaScript compares a number or a BigInt with a number by their exact values.
\<close>

definition updateGoalProgress ::
  "int \<Rightarrow> js_integer \<Rightarrow> store \<Rightarrow> (error + run_result) \<times> store" where
  "updateGoalProgress goalId currentValue s =
     (case get (SELECT_target_value goalId) s of
        (Inl e, s1) \<Rightarrow> (Inl e, s1)
      | (Inr None, s1) \<Rightarrow> (Inl TypeError, s1)
      | (Inr (Some target_value), s1) \<Rightarrow>
          let achieved = (integer_value currentValue \<ge> target_value)
          in run (UPDATE_goals currentValue (if achieved then 1 else 0) goalId) s1)"

subsection \<open>Observing the tables of a store\<close>

definition activities_of :: "store \<Rightarrow> activity_row list" where
  "activities_of s = (case db s of None \<Rightarrow> [] | Some c \<Rightarrow> activities (content c))"

definition logs_of :: "store \<Rightarrow> log_row list" where
  "logs_of s = (case db s of None \<Rightarrow> [] | Some c \<Rightarrow> logs (content c))"

definition goals_of :: "store \<Rightarrow> goal_row list" where
  "goals_of s = (case db s of None \<Rightarrow> [] | Some c \<Rightarrow> goals (content c))"

subsection \<open>Sequences of calls\<close>

text \<open>
  A caller's use of the store over time: calls of the methods above, whose results are
  dropped here, and calls of transaction whose unit of work makes such calls in turn and
  then either returns or throws.
\<close>

datatype operation =
    CreateActivity activity nat
  | UpdateActivity int activity nat
  | DeleteActivity int
  | CreateLog log nat
  | CreateGoal goal nat
  | UpdateGoalProgress int js_integer
  | Close
  | Transaction "operation list" "error option"

fun perform :: "operation \<Rightarrow> store \<Rightarrow> store" where
  "perform (CreateActivity a now) s = snd (createActivity a now s)"
| "perform (UpdateActivity i a now) s = snd (updateActivity i a now s)"
| "perform (DeleteActivity i) s = snd (deleteActivity i s)"
| "perform (CreateLog l now) s = snd (createLog l now s)"
| "perform (CreateGoal g now) s = snd (createGoal g now s)"
| "perform (UpdateGoalProgress goalId v) s = snd (updateGoalProgress goalId v s)"
| "perform Close s = snd (close s)"
| "perform (Transaction ops thrown) s =
     snd (transaction
            (\<lambda>s1. (case thrown of None \<Rightarrow> Inr () | Some e \<Rightarrow> Inl e, fold perform ops s1)) s)"

subsection \<open>The NOT NULL columns of activities, as a property of the stored rows\<close>

definition required_not_null :: "activity_row \<Rightarrow> bool" where
  "required_not_null r =
     (a_name r \<noteq> None \<and> a_specific r \<noteq> None \<and> a_measurable r \<noteq> None \<and> a_timebound r \<noteq> None)"

definition activities_valid :: "database \<Rightarrow> bool" where
  "activities_valid d = list_all required_not_null (activities d)"

text \<open>The rows a store holds, and the rows a ROLLBACK or a close would bring back.\<close>

definition store_valid :: "store \<Rightarrow> bool" where
  "store_valid s =
     (case db s of
        None \<Rightarrow> True
      | Some c \<Rightarrow>
          activities_valid (content c)
          \<and> (case snapshot c of None \<Rightarrow> True | Some d \<Rightarrow> activities_valid d))"

subsection \<open>A concrete run\<close>

text \<open>
  A new store opened on an empty file, then one activity (at time 5), one log (at
  time 6) and one goal with target 10 (at time 7).
\<close>

definition fresh_store :: store where
  "fresh_store = snd (init (Inr empty_database) constructor)"

definition run_5k :: activity where
  "run_5k =
     \<lparr>name = Some ''Run 5k'', description = None, specific = Some ''Run'',
      measurable = Some ''5km'', achievable = None, relevant = None,
      timebound = Some ''30 days'', buddy_email = None, completed = False\<rparr>"

definition run_5k_row :: activity_row where
  "run_5k_row =
     \<lparr>a_id = 1, a_name = Some ''Run 5k'', a_description = None, a_specific = Some ''Run'',
      a_measurable = Some ''5km'', a_achievable = None, a_relevant = None,
      a_timebound = Some ''30 days'', a_buddy_email = None, a_completed = 0,
      a_created_at = 5, a_updated_at = 5\<rparr>"

definition first_log :: log where
  "first_log = \<lparr>log_activity_id = Some 1, log_text = Some ''day one'', log_metrics = None\<rparr>"

definition first_log_row :: log_row where
  "first_log_row =
     \<lparr>l_id = 1, l_activity_id = 1, l_text = ''day one'', l_metrics = None, l_created_at = 6\<rparr>"

definition ten_goal :: goal where
  "ten_goal =
     \<lparr>goal_activity_id = Some 1, goal_target_value = Some (Number 10),
      goal_target_date = None\<rparr>"

definition ten_goal_row :: goal_row where
  "ten_goal_row =
     \<lparr>g_id = 1, g_activity_id = 1, g_target_value = 10, g_current_value = 0,
      g_target_date = None, g_achieved = 0, g_created_at = 7\<rparr>"

definition scenario_database :: database where
  "scenario_database =
     \<lparr>activities = [run_5k_row], logs = [first_log_row], goals = [ten_goal_row],
      seq_activities = 1, seq_logs = 1, seq_goals = 1\<rparr>"

definition scenario_connection :: connection where
  "scenario_connection =
     \<lparr>content = scenario_database, snapshot = None, foreign_keys = True, is_open = True,
      last_insert_rowid = 1\<rparr>"

definition scenario_store :: store where
  "scenario_store = \<lparr>db = Some scenario_connection\<rparr>"

text \<open>An update that also sends \<open>completed\<close>, and an activity whose texts are all empty.\<close>

definition run_10k_done :: activity where
  "run_10k_done =
     \<lparr>name = Some ''Run 10k'', description = Some ''longer'', specific = Some ''Run more'',
      measurable = Some ''10km'', achievable = Some ''yes'', relevant = Some ''health'',
      timebound = Some ''60 days'', buddy_email = Some ''buddy@example.org'',
      completed = True\<rparr>"

definition blank_activity :: activity where
  "blank_activity =
     \<lparr>name = Some [], description = None, specific = Some [], measurable = Some [],
      achievable = None, relevant = None, timebound = Some [], buddy_email = None,
      completed = False\<rparr>"

text \<open>A unit of work that inserts a second log and then throws.\<close>

definition second_log_then_throw :: "store \<Rightarrow> (error + unit) \<times> store" where
  "second_log_then_throw s =
     (case run (INSERT_INTO_logs (Some 1) (Some ''day two'') None 8) s of
        (Inl e, s1) \<Rightarrow> (Inl e, s1)
      | (Inr r, s1) \<Rightarrow> (Inl (Error ''stop''), s1))"

text \<open>
  Three more units of work that insert the second log: one then commits by itself
  (\<^verbatim>\<open>this.db.exec('COMMIT')\<close>) and throws, one closes the store and throws, and one is
  an \<^verbatim>\<open>async\<close> function, so that what it hands back is a promise, here with the
  value it settles to: its \<^verbatim>\<open>throw\<close> rejects the promise.
\<close>

definition second_log_commit_then_throw :: "store \<Rightarrow> (error + unit) \<times> store" where
  "second_log_commit_then_throw s =
     (case run (INSERT_INTO_logs (Some 1) (Some ''day two'') None 8) s of
        (Inl e, s1) \<Rightarrow> (Inl e, s1)
      | (Inr r, s1) \<Rightarrow>
          (case exec COMMIT s1 of
             (Inl e, s2) \<Rightarrow> (Inl e, s2)
           | (Inr u, s2) \<Rightarrow> (Inl (Error ''stop''), s2)))"

definition second_log_close_then_throw :: "store \<Rightarrow> (error + unit) \<times> store" where
  "second_log_close_then_throw s =
     (case run (INSERT_INTO_logs (Some 1) (Some ''day two'') None 8) s of
        (Inl e, s1) \<Rightarrow> (Inl e, s1)
      | (Inr r, s1) \<Rightarrow>
          (case close s1 of
             (Inl e, s2) \<Rightarrow> (Inl e, s2)
           | (Inr u, s2) \<Rightarrow> (Inl (Error ''stop''), s2)))"

definition second_log_then_reject :: "store \<Rightarrow> (error + (error + unit)) \<times> store" where
  "second_log_then_reject s =
     (case run (INSERT_INTO_logs (Some 1) (Some ''day two'') None 8) s of
        (Inl e, s1) \<Rightarrow> (Inr (Inl e), s1)
      | (Inr r, s1) \<Rightarrow> (Inr (Inl (Error ''stop'')), s1))"

definition second_log_row :: log_row where
  "second_log_row =
     \<lparr>l_id = 2, l_activity_id = 1, l_text = ''day two'', l_metrics = None, l_created_at = 8\<rparr>"

text \<open>
  A second goal whose target, given as a BigInt, is one more than \<open>2 ^ 53\<close>, created
  at time 8 in the concrete run.
\<close>

definition big_goal :: goal where
  "big_goal =
     \<lparr>goal_activity_id = Some 1, goal_target_value = Some (BigInt 9007199254740993),
      goal_target_date = None\<rparr>"

definition big_goal_row :: goal_row where
  "big_goal_row =
     \<lparr>g_id = 2, g_activity_id = 1, g_target_value = 9007199254740993, g_current_value = 0,
      g_target_date = None, g_achieved = 0, g_created_at = 8\<rparr>"

definition big_goal_store :: store where
  "big_goal_store = snd (createGoal big_goal 8 scenario_store)"

section \<open>Properties\<close>

subsection \<open>The concrete run\<close>

lemmas scenario_defs =
  scenario_store_def scenario_connection_def scenario_database_def
  run_5k_row_def first_log_row_def ten_goal_row_def

text \<open>
  init on a file that opens leaves an open connection with foreign keys enforced and
  no transaction in progress.
\<close>

lemma init_enables_foreign_keys:
  "init (Inr d) s
     = (Inr True,
        s\<lparr>db := Some \<lparr>content = d, snapshot = None, foreign_keys = True, is_open = True,
                       last_insert_rowid = 0\<rparr>\<rparr>)"
  by (simp add: init_def createTables_def connect_def pragma_foreign_keys_ON_def)

lemma fresh_store_eq:
  "fresh_store =
     \<lparr>db = Some \<lparr>content = empty_database, snapshot = None, foreign_keys = True,
                  is_open = True, last_insert_rowid = 0\<rparr>\<rparr>"
  by (simp add: fresh_store_def init_def createTables_def connect_def
      pragma_foreign_keys_ON_def constructor_def)

text \<open>The three calls of the concrete run lead from the new store to \<open>scenario_store\<close>.\<close>

lemma scenario_reached:
  "fold perform [CreateActivity run_5k 5, CreateLog first_log 6, CreateGoal ten_goal 7] fresh_store
     = scenario_store"
  by (simp add: fresh_store_eq createActivity_def createLog_def createGoal_def run_def
      INSERT_INTO_activities_def INSERT_INTO_logs_def INSERT_INTO_goals_def
      run_5k_def first_log_def ten_goal_def run_5k_row_def first_log_row_def ten_goal_row_def
      empty_database_def next_rowid_def
      scenario_store_def scenario_connection_def scenario_database_def)

subsection \<open>Integers between JavaScript and the engine\<close>

lemma bit_length_le: "n < 2 ^ k \<Longrightarrow> bit_length n \<le> k"
proof (induction k arbitrary: n)
  case 0
  then show ?case by (simp add: bit_length.simps)
next
  case (Suc k)
  show ?case
  proof (cases "n = 0")
    case True
    then show ?thesis by (simp add: bit_length.simps)
  next
    case False
    from Suc.prems have "n div 2 < 2 ^ k" by simp
    then have "bit_length (n div 2) \<le> k" by (rule Suc.IH)
    with False show ?thesis by (subst bit_length.simps) simp
  qed
qed

text \<open>Every integer of magnitude up to \<open>2 ^ 53\<close> is read back as itself.\<close>

lemma safe_integer_exact:
  assumes "\<bar>n\<bar> \<le> 2 ^ 53"
  shows "to_double n = n"
proof (cases "\<bar>n\<bar> < 2 ^ 53")
  case True
  then have "nat \<bar>n\<bar> < 2 ^ 53" by simp
  then have "bit_length (nat \<bar>n\<bar>) \<le> 53" by (rule bit_length_le)
  then show ?thesis by (simp add: to_double_def Let_def)
next
  case False
  with assms have "n = 9007199254740992 \<or> n = - 9007199254740992" by auto
  then show ?thesis
  proof
    assume "n = 9007199254740992"
    then show ?thesis by (simp add: to_double_def bit_length.simps)
  next
    assume "n = - 9007199254740992"
    then show ?thesis by (simp add: to_double_def bit_length.simps)
  qed
qed

lemma bind_integer_value: "bind_integer v = Inr n \<Longrightarrow> integer_value v = n"
  by (cases v) (auto split: if_splits)

lemma bind_Number: "bind_integer (Number n) = Inr n"
  by simp

lemma bind_BigInt_in_range:
  "- (2 ^ 63) \<le> n \<Longrightarrow> n < 2 ^ 63 \<Longrightarrow> bind_integer (BigInt n) = Inr n"
  by simp

subsection \<open>Updating the progress of a goal\<close>

lemma find_map_update:
  assumes "\<And>g. g_id (upd g) = g_id g"
  shows "find (\<lambda>g. g_id g = i) (map (\<lambda>g. if g_id g = i then upd g else g) gs)
         = map_option upd (find (\<lambda>g. g_id g = i) gs)"
  using assms by (induction gs) auto

lemma filter_map_others:
  "filter (\<lambda>g. g_id g \<noteq> i)
     (map (\<lambda>g. if g_id g = i then g\<lparr>g_current_value := v, g_achieved := b\<rparr> else g) gs)
   = filter (\<lambda>g. g_id g \<noteq> i) gs"
  by (induction gs) auto

text \<open>
  The second goal of the concrete run has the target \<open>2 ^ 53 + 1\<close>, which the read
  step returns as \<open>2 ^ 53\<close>. A progress of \<open>2 ^ 53\<close>, one less than the target, is
  stored with achieved 1.
\<close>

theorem updateGoalProgress_large_target_counterexample:
  "find (\<lambda>g. g_id g = 2) (goals_of big_goal_store) = Some big_goal_row
   \<and> g_target_value big_goal_row = 9007199254740993
   \<and> js_valid (Number 9007199254740992)
   \<and> integer_value (Number 9007199254740992) = g_target_value big_goal_row - 1
   \<and> fst (updateGoalProgress 2 (Number 9007199254740992) big_goal_store)
       = Inr \<lparr>id' = 2, changes = 1\<rparr>
   \<and> find (\<lambda>g. g_id g = 2)
        (goals_of (snd (updateGoalProgress 2 (Number 9007199254740992) big_goal_store)))
       = Some (big_goal_row\<lparr>g_current_value := 9007199254740992, g_achieved := 1\<rparr>)"
  by (simp add: big_goal_store_def big_goal_def big_goal_row_def createGoal_def
      updateGoalProgress_def get_def run_def INSERT_INTO_goals_def UPDATE_goals_def
      SELECT_target_value_def next_rowid_def goals_of_def to_double_def bit_length.simps
      scenario_store_def scenario_connection_def scenario_database_def
      run_5k_row_def first_log_row_def ten_goal_row_def)

text \<open>
  C1 (amended): on an open store, for an existing goal \<open>g\<close> (the row the read step
  finds for \<open>goalId\<close>) whose target value is one that a JavaScript number holds exactly
  (every target of magnitude up to \<open>2 ^ 53\<close> is, by \<open>safe_integer_exact\<close>), and for
  every integer \<open>v\<close> given as a number or as a BigInt that the driver binds (a number
  always, a BigInt when it fits 64 bits), updateGoalProgress completes normally, and
  afterwards the stored goal is \<open>g\<close> with current_value the value of \<open>v\<close> and achieved 1
  if that value is at least the target and 0 otherwise; the goals with other ids are
  untouched.
\<close>

theorem updateGoalProgress_achieved:
  assumes "db s = Some c" and "is_open c"
    and "find (\<lambda>g. g_id g = goalId) (goals_of s) = Some g"
    and "to_double (g_target_value g) = g_target_value g"
    and "js_valid v" and "bind_integer v = Inr n"
  shows "integer_value v = n
         \<and> fst (updateGoalProgress goalId v s)
             = Inr \<lparr>id' = last_insert_rowid c,
                    changes = length (filter (\<lambda>g. g_id g = goalId) (goals_of s))\<rparr>
         \<and> find (\<lambda>g. g_id g = goalId) (goals_of (snd (updateGoalProgress goalId v s)))
             = Some (g\<lparr>g_current_value := n,
                       g_achieved := (if n \<ge> g_target_value g then 1 else 0)\<rparr>)
         \<and> filter (\<lambda>g. g_id g \<noteq> goalId) (goals_of (snd (updateGoalProgress goalId v s)))
             = filter (\<lambda>g. g_id g \<noteq> goalId) (goals_of s)"
proof -
  have v: "integer_value v = n"
    using assms(6) by (rule bind_integer_value)
  with assms(1-4,6) show ?thesis
    by (simp add: updateGoalProgress_def get_def run_def SELECT_target_value_def
        UPDATE_goals_def goals_of_def find_map_update filter_map_others)
qed

text \<open>
  The goal with target 10 at progress 10 given as a number (achieved) and at progress 9
  given as a BigInt (not achieved).
\<close>

theorem updateGoalProgress_achieved_witness:
  "db scenario_store = Some scenario_connection \<and> is_open scenario_connection
   \<and> find (\<lambda>g. g_id g = 1) (goals_of scenario_store) = Some ten_goal_row
   \<and> g_target_value ten_goal_row = 10
   \<and> to_double (g_target_value ten_goal_row) = g_target_value ten_goal_row
   \<and> js_valid (Number 10) \<and> bind_integer (Number 10) = Inr 10
   \<and> js_valid (BigInt 9) \<and> bind_integer (BigInt 9) = Inr 9
   \<and> fst (updateGoalProgress 1 (Number 10) scenario_store) = Inr \<lparr>id' = 1, changes = 1\<rparr>
   \<and> find (\<lambda>g. g_id g = 1) (goals_of (snd (updateGoalProgress 1 (Number 10) scenario_store)))
       = Some (ten_goal_row\<lparr>g_current_value := 10, g_achieved := 1\<rparr>)
   \<and> find (\<lambda>g. g_id g = 1) (goals_of (snd (updateGoalProgress 1 (BigInt 9) scenario_store)))
       = Some (ten_goal_row\<lparr>g_current_value := 9, g_achieved := 0\<rparr>)"
proof -
  have h1: "db scenario_store = Some scenario_connection"
    by (simp add: scenario_store_def)
  have h2: "is_open scenario_connection"
    by (simp add: scenario_connection_def)
  have h3: "find (\<lambda>g. g_id g = 1) (goals_of scenario_store) = Some ten_goal_row"
    by (simp add: goals_of_def scenario_defs)
  have t: "g_target_value ten_goal_row = 10"
    by (simp add: ten_goal_row_def)
  have h4: "to_double (g_target_value ten_goal_row) = g_target_value ten_goal_row"
    by (simp add: t to_double_def bit_length.simps)
  have h5: "js_valid (Number 10)"
    by (simp add: to_double_def bit_length.simps)
  have h6: "bind_integer (Number 10) = Inr 10"
    by simp
  have h7: "js_valid (BigInt 9)"
    by simp
  have h8: "bind_integer (BigInt 9) = Inr 9"
    by simp
  have n: "last_insert_rowid scenario_connection = 1
           \<and> length (filter (\<lambda>g. g_id g = 1) (goals_of scenario_store)) = 1"
    by (simp add: goals_of_def scenario_defs)
  show ?thesis
    using h1 h2 h3 t h4 h5 h6 h7 h8 n
      updateGoalProgress_achieved [OF h1 h2 h3 h4 h5 h6]
      updateGoalProgress_achieved [OF h1 h2 h3 h4 h7 h8]
    by simp
qed

text \<open>
  A BigInt that does not fit 64 bits is refused when the write binds it: the call fails
  with a RangeError after the read, and nothing is stored.
\<close>

lemma updateGoalProgress_BigInt_out_of_range:
  assumes "db s = Some c" and "is_open c"
    and "find (\<lambda>g. g_id g = goalId) (goals_of s) = Some g"
    and "n < - (2 ^ 63) \<or> 2 ^ 63 \<le> n"
  shows "updateGoalProgress goalId (BigInt n) s = (Inl RangeError, s)"
  using assms
  by (auto simp add: updateGoalProgress_def get_def run_def SELECT_target_value_def
      UPDATE_goals_def goals_of_def)

text \<open>
  No goal has the id 7, and the call fails with a TypeError; so does a call for the
  existing goal 1 on the store once it is closed. The failure is the run-time one of
  reading a property of \<^verbatim>\<open>undefined\<close> or of using a closed handle, not an error that
  says that the goal was not found.
\<close>

theorem updateGoalProgress_not_found_error_counterexample:
  "find (\<lambda>g. g_id g = 7) (goals_of scenario_store) = None
   \<and> updateGoalProgress 7 (Number 3) scenario_store = (Inl TypeError, scenario_store)
   \<and> find (\<lambda>g. g_id g = 1) (goals_of (snd (close scenario_store))) = Some ten_goal_row
   \<and> fst (updateGoalProgress 1 (Number 3) (snd (close scenario_store))) = Inl TypeError"
  by (simp add: updateGoalProgress_def get_def SELECT_target_value_def goals_of_def
      close_def close_connection_def
      scenario_store_def scenario_connection_def scenario_database_def
      run_5k_row_def first_log_row_def ten_goal_row_def)

text \<open>
  C3 (amended): on an open store, when no goal has the id \<open>goalId\<close> the read step
  returns no row and updateGoalProgress fails with the TypeError raised on reading
  \<^verbatim>\<open>target_value\<close> of the missing row, whatever the progress value; the failure comes
  before the write, so the store and with it the goals table are unchanged.
\<close>

theorem updateGoalProgress_missing_goal:
  assumes "db s = Some c" and "is_open c"
    and "find (\<lambda>g. g_id g = goalId) (goals_of s) = None"
  shows "updateGoalProgress goalId v s = (Inl TypeError, s)"
  using assms
  by (simp add: updateGoalProgress_def get_def SELECT_target_value_def goals_of_def)

theorem updateGoalProgress_missing_goal_witness:
  "db scenario_store = Some scenario_connection \<and> is_open scenario_connection
   \<and> find (\<lambda>g. g_id g = 7) (goals_of scenario_store) = None
   \<and> updateGoalProgress 7 (Number 3) scenario_store = (Inl TypeError, scenario_store)"
proof -
  have h1: "db scenario_store = Some scenario_connection"
    by (simp add: scenario_store_def)
  have h2: "is_open scenario_connection"
    by (simp add: scenario_connection_def)
  have h3: "find (\<lambda>g. g_id g = 7) (goals_of scenario_store) = None"
    by (simp add: goals_of_def scenario_defs)
  show ?thesis
    using h1 h2 h3 updateGoalProgress_missing_goal [OF h1 h2 h3, of "Number 3"] by simp
qed

subsection \<open>transaction\<close>

text \<open>
  The generic methods neither begin nor end a transaction, and they leave the handle
  open: a unit of work made of calls to them ends inside the transaction it started in.
\<close>

lemma run_keeps_transaction:
  assumes "db s = Some c"
  shows "\<exists>c'. db (snd (run sql s)) = Some c' \<and> snapshot c' = snapshot c
              \<and> is_open c' = is_open c \<and> foreign_keys c' = foreign_keys c"
  using assms by (auto simp add: run_def Let_def split: sum.splits)

lemma get_keeps_store: "snd (get sql s) = s"
  by (simp add: get_def split: option.splits)

lemma all_keeps_store: "snd (all sql s) = s"
  by (simp add: all_def split: option.splits)

text \<open>
  Three units of work for which rollback and re-raising do not come about, each run by
  transaction on the store of the concrete run, each inserting a second log. The one
  that commits by itself before it throws keeps its insert, and the caller gets the
  failure of the ROLLBACK in place of the one thrown. The one that closes the store
  before it throws gets a TypeError back in place of the one thrown. The
  \<^verbatim>\<open>async\<close> one returns normally as far as transaction can see: its insert is
  committed and the caller gets the rejected promise.
\<close>

theorem transaction_unit_of_work_counterexample:
  "logs_of scenario_store = [first_log_row]
   \<and> fst (transaction second_log_commit_then_throw scenario_store)
       = Inl (SqliteError SQLITE_ERROR)
   \<and> logs_of (snd (transaction second_log_commit_then_throw scenario_store))
       = [first_log_row, second_log_row]
   \<and> fst (transaction second_log_close_then_throw scenario_store) = Inl TypeError
   \<and> fst (transaction second_log_then_reject scenario_store) = Inr (Inl (Error ''stop''))
   \<and> logs_of (snd (transaction second_log_then_reject scenario_store))
       = [first_log_row, second_log_row]"
  by (simp add: transaction_def exec_def rollback_and_rethrow_def run_def close_def
      close_connection_def INSERT_INTO_logs_def next_rowid_def logs_of_def
      second_log_commit_then_throw_def second_log_close_then_throw_def
      second_log_then_reject_def second_log_row_def
      scenario_store_def scenario_connection_def scenario_database_def
      run_5k_row_def first_log_row_def ten_goal_row_def)

text \<open>
  C2 (amended): transaction is called on an open store with no transaction in
  progress. The unit of work runs on the store as BEGIN leaves it and, returning or
  throwing during the call, ends with \<open>outcome\<close> in a store whose connection \<open>c2\<close> is
  still open and still inside that transaction (the unit of work has not itself
  committed, rolled back or closed). Then transaction returns the same \<open>outcome\<close>: a
  failure \<open>Inl e\<close> is raised again unchanged and the database contents are those from
  before the call, whatever the unit of work had written; a normal result is returned
  and the contents are those the unit of work left. In both cases no transaction
  remains open.
\<close>

theorem transaction_commit_or_rollback:
  assumes "db s = Some c" and "is_open c" and "snapshot c = None"
    and "callback (s\<lparr>db := Some (c\<lparr>snapshot := Some (content c)\<rparr>)\<rparr>) = (outcome, s2)"
    and "db s2 = Some c2" and "is_open c2" and "snapshot c2 = Some (content c)"
  shows "transaction callback s =
           (outcome,
            s2\<lparr>db := Some (c2\<lparr>content := (case outcome of
                                            Inl e \<Rightarrow> content c
                                          | Inr result \<Rightarrow> content c2),
                               snapshot := None\<rparr>)\<rparr>)"
  using assms
  by (simp add: transaction_def exec_def rollback_and_rethrow_def split: sum.splits)

text \<open>A unit of work that throws after one successful insert: the logs are as before.\<close>

theorem transaction_commit_or_rollback_witness:
  "db scenario_store = Some scenario_connection \<and> is_open scenario_connection
   \<and> snapshot scenario_connection = None
   \<and> second_log_then_throw
        (scenario_store\<lparr>db := Some (scenario_connection
                                      \<lparr>snapshot := Some (content scenario_connection)\<rparr>)\<rparr>)
       = (Inl (Error ''stop''),
          \<lparr>db = Some (scenario_connection
                        \<lparr>content := scenario_database
                                      \<lparr>logs := [first_log_row,
                                                 \<lparr>l_id = 2, l_activity_id = 1,
                                                  l_text = ''day two'', l_metrics = None,
                                                  l_created_at = 8\<rparr>],
                                        seq_logs := 2\<rparr>,
                          snapshot := Some (content scenario_connection),
                          last_insert_rowid := 2\<rparr>)\<rparr>)
   \<and> transaction second_log_then_throw scenario_store
       = (Inl (Error ''stop''),
          \<lparr>db = Some (scenario_connection\<lparr>last_insert_rowid := 2\<rparr>)\<rparr>)
   \<and> logs_of (snd (transaction second_log_then_throw scenario_store)) = logs_of scenario_store"
proof -
  let ?c2 = "scenario_connection
               \<lparr>content := scenario_database
                             \<lparr>logs := [first_log_row,
                                        \<lparr>l_id = 2, l_activity_id = 1, l_text = ''day two'',
                                         l_metrics = None, l_created_at = 8\<rparr>],
                               seq_logs := 2\<rparr>,
                 snapshot := Some (content scenario_connection),
                 last_insert_rowid := 2\<rparr>"
  have h1: "db scenario_store = Some scenario_connection"
    by (simp add: scenario_store_def)
  have h2: "is_open scenario_connection"
    by (simp add: scenario_connection_def)
  have h3: "snapshot scenario_connection = None"
    by (simp add: scenario_connection_def)
  have h4: "second_log_then_throw
              (scenario_store\<lparr>db := Some (scenario_connection
                                            \<lparr>snapshot := Some (content scenario_connection)\<rparr>)\<rparr>)
            = (Inl (Error ''stop''), \<lparr>db = Some ?c2\<rparr>)"
    by (simp add: second_log_then_throw_def run_def INSERT_INTO_logs_def next_rowid_def
        scenario_defs)
  have h5: "db \<lparr>db = Some ?c2\<rparr> = Some ?c2"
    by simp
  have h6: "is_open ?c2"
    by (simp add: scenario_connection_def)
  have h7: "snapshot ?c2 = Some (content scenario_connection)"
    by simp
  have r: "transaction second_log_then_throw scenario_store
           = (Inl (Error ''stop''), \<lparr>db = Some (scenario_connection\<lparr>last_insert_rowid := 2\<rparr>)\<rparr>)"
    using transaction_commit_or_rollback [where callback = second_log_then_throw, OF h1 h2 h3 h4 h5 h6 h7]
    by (simp add: scenario_connection_def)
  have l: "logs_of (snd (transaction second_log_then_throw scenario_store))
           = logs_of scenario_store"
    unfolding r by (simp add: logs_of_def scenario_store_def scenario_connection_def)
  show ?thesis
    using h1 h2 h3 h4 r l by simp
qed

subsection \<open>Deleting an activity\<close>

lemma filter_id_none: "i \<notin> set (map a_id rows) \<Longrightarrow> filter (\<lambda>r. a_id r = i) rows = []"
  by (induction rows) auto

lemma filter_id_all: "i \<notin> set (map a_id rows) \<Longrightarrow> filter (\<lambda>r. a_id r \<noteq> i) rows = rows"
  by (induction rows) auto

lemma filter_id_some: "i \<in> set (map a_id rows) \<Longrightarrow> filter (\<lambda>r. a_id r = i) rows \<noteq> []"
  by (induction rows) auto

text \<open>
  C4: on an open store with foreign keys enforced (as init leaves it), deleting an
  existing activity id completes normally with at least one row changed; the one
  DELETE statement removes the activity rows with that id and, with them, exactly the
  logs and the goals whose activity_id is that id, so that afterwards no activity, log
  or goal refers to the id.
\<close>

theorem deleteActivity_cascade:
  assumes "db s = Some c" and "is_open c" and "foreign_keys c"
    and "i \<in> set (map a_id (activities_of s))"
  shows "fst (deleteActivity i s)
           = Inr \<lparr>id' = last_insert_rowid c,
                  changes = length (filter (\<lambda>r. a_id r = i) (activities_of s))\<rparr>
         \<and> 0 < length (filter (\<lambda>r. a_id r = i) (activities_of s))
         \<and> activities_of (snd (deleteActivity i s))
             = filter (\<lambda>r. a_id r \<noteq> i) (activities_of s)
         \<and> logs_of (snd (deleteActivity i s))
             = filter (\<lambda>l. l_activity_id l \<noteq> i) (logs_of s)
         \<and> goals_of (snd (deleteActivity i s))
             = filter (\<lambda>g. g_activity_id g \<noteq> i) (goals_of s)
         \<and> i \<notin> set (map a_id (activities_of (snd (deleteActivity i s))))
         \<and> i \<notin> set (map l_activity_id (logs_of (snd (deleteActivity i s))))
         \<and> i \<notin> set (map g_activity_id (goals_of (snd (deleteActivity i s))))"
proof -
  have "filter (\<lambda>r. a_id r = i) (activities (content c)) \<noteq> []"
    using assms(1,4) by (simp add: activities_of_def filter_id_some)
  with assms(1-3) show ?thesis
    by (auto simp add: deleteActivity_def run_def DELETE_FROM_activities_def activities_of_def
        logs_of_def goals_of_def Let_def)
qed

text \<open>Deleting the activity of the concrete run empties all three tables.\<close>

theorem deleteActivity_cascade_witness:
  "db scenario_store = Some scenario_connection \<and> is_open scenario_connection
   \<and> foreign_keys scenario_connection
   \<and> 1 \<in> set (map a_id (activities_of scenario_store))
   \<and> logs_of scenario_store = [first_log_row] \<and> goals_of scenario_store = [ten_goal_row]
   \<and> fst (deleteActivity 1 scenario_store) = Inr \<lparr>id' = 1, changes = 1\<rparr>
   \<and> activities_of (snd (deleteActivity 1 scenario_store)) = []
   \<and> logs_of (snd (deleteActivity 1 scenario_store)) = []
   \<and> goals_of (snd (deleteActivity 1 scenario_store)) = []"
proof -
  have h1: "db scenario_store = Some scenario_connection"
    by (simp add: scenario_store_def)
  have h2: "is_open scenario_connection"
    by (simp add: scenario_connection_def)
  have h3: "foreign_keys scenario_connection"
    by (simp add: scenario_connection_def)
  have h4: "1 \<in> set (map a_id (activities_of scenario_store))"
    by (simp add: activities_of_def scenario_defs)
  have before:
    "activities_of scenario_store = [run_5k_row] \<and> logs_of scenario_store = [first_log_row]
     \<and> goals_of scenario_store = [ten_goal_row] \<and> last_insert_rowid scenario_connection = 1
     \<and> a_id run_5k_row = 1 \<and> l_activity_id first_log_row = 1 \<and> g_activity_id ten_goal_row = 1"
    by (simp add: activities_of_def logs_of_def goals_of_def scenario_defs)
  show ?thesis
    using h1 h2 h3 h4 before deleteActivity_cascade [OF h1 h2 h3 h4] by simp
qed

text \<open>
  C9: on an open store, deleting an id that no activity has completes normally, reports
  0 changed rows and leaves the store, hence every table, as it was.
\<close>

theorem deleteActivity_missing:
  assumes "db s = Some c" and "is_open c"
    and "i \<notin> set (map a_id (activities_of s))"
  shows "deleteActivity i s = (Inr \<lparr>id' = last_insert_rowid c, changes = 0\<rparr>, s)"
  using assms
  by (simp add: deleteActivity_def run_def DELETE_FROM_activities_def activities_of_def
      filter_id_none filter_id_all)

theorem deleteActivity_missing_witness:
  "db scenario_store = Some scenario_connection \<and> is_open scenario_connection
   \<and> 2 \<notin> set (map a_id (activities_of scenario_store))
   \<and> deleteActivity 2 scenario_store = (Inr \<lparr>id' = 1, changes = 0\<rparr>, scenario_store)"
proof -
  have h1: "db scenario_store = Some scenario_connection"
    by (simp add: scenario_store_def)
  have h2: "is_open scenario_connection"
    by (simp add: scenario_connection_def)
  have h3: "2 \<notin> set (map a_id (activities_of scenario_store))"
    by (simp add: activities_of_def scenario_defs)
  have n: "last_insert_rowid scenario_connection = 1"
    by (simp add: scenario_connection_def)
  show ?thesis
    using h1 h2 h3 n deleteActivity_missing [OF h1 h2 h3] by simp
qed

subsection \<open>Creating a log\<close>

text \<open>
  C5: on an open store with foreign keys enforced, a log record that carries its
  required fields (an activity_id and a text) and whose activity_id is the id of no
  activity makes createLog fail with the driver's foreign-key constraint error; the
  store is unchanged, so no row is inserted.
\<close>

theorem createLog_missing_activity:
  assumes "db s = Some c" and "is_open c" and "foreign_keys c"
    and "log_activity_id l = Some aid" and "log_text l = Some txt"
    and "aid \<notin> set (map a_id (activities_of s))"
  shows "createLog l now s = (Inl (SqliteError SQLITE_CONSTRAINT_FOREIGNKEY), s)"
  using assms
  by (simp add: createLog_def run_def INSERT_INTO_logs_def activities_of_def)

theorem createLog_missing_activity_witness:
  "db scenario_store = Some scenario_connection \<and> is_open scenario_connection
   \<and> foreign_keys scenario_connection
   \<and> log_activity_id (first_log\<lparr>log_activity_id := Some 9\<rparr>) = Some 9
   \<and> log_text (first_log\<lparr>log_activity_id := Some 9\<rparr>) = Some ''day one''
   \<and> 9 \<notin> set (map a_id (activities_of scenario_store))
   \<and> createLog (first_log\<lparr>log_activity_id := Some 9\<rparr>) 8 scenario_store
       = (Inl (SqliteError SQLITE_CONSTRAINT_FOREIGNKEY), scenario_store)"
proof -
  have h1: "db scenario_store = Some scenario_connection"
    by (simp add: scenario_store_def)
  have h2: "is_open scenario_connection"
    by (simp add: scenario_connection_def)
  have h3: "foreign_keys scenario_connection"
    by (simp add: scenario_connection_def)
  have h4: "log_activity_id (first_log\<lparr>log_activity_id := Some 9\<rparr>) = Some 9"
    by simp
  have h5: "log_text (first_log\<lparr>log_activity_id := Some 9\<rparr>) = Some ''day one''"
    by (simp add: first_log_def)
  have h6: "9 \<notin> set (map a_id (activities_of scenario_store))"
    by (simp add: activities_of_def scenario_defs)
  show ?thesis
    using h1 h2 h3 h4 h5 h6 createLog_missing_activity [OF h1 h2 h3 h4 h5 h6, of 8] by simp
qed

subsection \<open>Creating and listing activities\<close>

lemma set_insert_desc: "set (insert_desc k x xs) = insert x (set xs)"
  by (induction xs) auto

lemma sorted_insert_desc:
  "sorted_wrt (\<lambda>x y. k x \<ge> k y) xs \<Longrightarrow> sorted_wrt (\<lambda>x y. k x \<ge> k y) (insert_desc k x xs)"
  by (induction xs) (auto simp: set_insert_desc)

lemma set_fold_insert_desc: "set (fold (insert_desc k) rows acc) = set rows \<union> set acc"
  by (induction rows arbitrary: acc) (auto simp: set_insert_desc)

lemma sorted_fold_insert_desc:
  "sorted_wrt (\<lambda>x y. k x \<ge> k y) acc
   \<Longrightarrow> sorted_wrt (\<lambda>x y. k x \<ge> k y) (fold (insert_desc k) rows acc)"
  by (induction rows arbitrary: acc) (auto simp: sorted_insert_desc)

lemma set_ORDER_BY_DESC: "set (ORDER_BY_DESC k rows) = set rows"
  by (simp add: ORDER_BY_DESC_def set_fold_insert_desc)

lemma sorted_ORDER_BY_DESC: "sorted_wrt (\<lambda>x y. k x \<ge> k y) (ORDER_BY_DESC k rows)"
  by (simp add: ORDER_BY_DESC_def sorted_fold_insert_desc)

lemma fold_max_lower: "(seq::int) \<le> fold max ids seq"
proof (induction ids arbitrary: seq)
  case Nil
  show ?case by simp
next
  case (Cons x xs)
  have "seq \<le> max x seq" by simp
  also have "\<dots> \<le> fold max xs (max x seq)" by (rule Cons.IH)
  finally show ?case by simp
qed

lemma fold_max_upper: "x \<in> set ids \<Longrightarrow> (x::int) \<le> fold max ids seq"
proof (induction ids arbitrary: seq)
  case Nil
  then show ?case by simp
next
  case (Cons y ys)
  show ?case
  proof (cases "x = y")
    case True
    have "x \<le> max y seq" using True by simp
    also have "\<dots> \<le> fold max ys (max y seq)" by (rule fold_max_lower)
    finally show ?thesis by simp
  next
    case False
    with Cons.prems have "x \<in> set ys" by simp
    then show ?thesis using Cons.IH by simp
  qed
qed

lemma next_rowid_fresh: "next_rowid ids seq \<notin> set ids"
proof
  assume "next_rowid ids seq \<in> set ids"
  then have "next_rowid ids seq \<le> fold max ids seq" by (rule fold_max_upper)
  then show False by (simp add: next_rowid_def)
qed

text \<open>
  An activity created in the same second as the one of the concrete run (both have
  created_at 5) is listed after it: the later creation does not come first.
\<close>

theorem createActivity_same_second_counterexample:
  "map a_id (activities_of scenario_store) = [1]
   \<and> map a_created_at (activities_of scenario_store) = [5]
   \<and> name run_10k_done \<noteq> None \<and> specific run_10k_done \<noteq> None
   \<and> measurable run_10k_done \<noteq> None \<and> timebound run_10k_done \<noteq> None
   \<and> fst (createActivity run_10k_done 5 scenario_store) = Inr \<lparr>id' = 2, changes = 1\<rparr>
   \<and> map a_id (projr (fst (getAllActivities
                              (snd (createActivity run_10k_done 5 scenario_store))))) = [1, 2]
   \<and> map a_created_at
        (projr (fst (getAllActivities
                       (snd (createActivity run_10k_done 5 scenario_store))))) = [5, 5]"
  by (simp add: createActivity_def getAllActivities_def run_def all_def
      INSERT_INTO_activities_def SELECT_activities_def ORDER_BY_DESC_def next_rowid_def
      activities_of_def run_10k_done_def
      scenario_store_def scenario_connection_def scenario_database_def
      run_5k_row_def first_log_row_def ten_goal_row_def)

text \<open>
  C7 (amended): on an open store, for an activity input with name, specific,
  measurable and timebound present, createActivity succeeds with a new id, and the
  list that getAllActivities then returns (without changing the store) holds the new
  record: that id, the eight input fields exactly as given, completed 0, and both
  timestamps at the time of creation. The list holds the earlier activities and this
  one, nothing else, and no record in it comes before one with a later created_at.
  Nothing is said about the order of records whose created_at is the same second.
\<close>

theorem createActivity_then_list:
  assumes "db s = Some c" and "is_open c"
    and "name a \<noteq> None" and "specific a \<noteq> None"
    and "measurable a \<noteq> None" and "timebound a \<noteq> None"
  shows "\<exists>r rows.
           fst (createActivity a now s) = Inr r
           \<and> changes r = 1
           \<and> id' r \<notin> set (map a_id (activities_of s))
           \<and> getAllActivities (snd (createActivity a now s))
               = (Inr rows, snd (createActivity a now s))
           \<and> \<lparr>a_id = id' r, a_name = name a, a_description = description a,
               a_specific = specific a, a_measurable = measurable a,
               a_achievable = achievable a, a_relevant = relevant a,
               a_timebound = timebound a, a_buddy_email = buddy_email a,
               a_completed = 0, a_created_at = now, a_updated_at = now\<rparr> \<in> set rows
           \<and> set rows
               = insert \<lparr>a_id = id' r, a_name = name a, a_description = description a,
                         a_specific = specific a, a_measurable = measurable a,
                         a_achievable = achievable a, a_relevant = relevant a,
                         a_timebound = timebound a, a_buddy_email = buddy_email a,
                         a_completed = 0, a_created_at = now, a_updated_at = now\<rparr>
                   (set (activities_of s))
           \<and> sorted_wrt (\<lambda>x y. a_created_at x \<ge> a_created_at y) rows"
  using assms
    next_rowid_fresh [of "map a_id (activities (content c))" "seq_activities (content c)"]
  by (auto simp add: createActivity_def getAllActivities_def run_def all_def
      INSERT_INTO_activities_def SELECT_activities_def activities_of_def Let_def
      set_ORDER_BY_DESC sorted_ORDER_BY_DESC)

text \<open>A second activity, created at time 9 in the concrete run, is listed first.\<close>

theorem createActivity_then_list_witness:
  "db scenario_store = Some scenario_connection \<and> is_open scenario_connection
   \<and> name run_10k_done \<noteq> None \<and> specific run_10k_done \<noteq> None
   \<and> measurable run_10k_done \<noteq> None \<and> timebound run_10k_done \<noteq> None
   \<and> (\<exists>r rows.
         fst (createActivity run_10k_done 9 scenario_store) = Inr r
         \<and> changes r = 1
         \<and> id' r \<notin> set (map a_id (activities_of scenario_store))
         \<and> getAllActivities (snd (createActivity run_10k_done 9 scenario_store))
             = (Inr rows, snd (createActivity run_10k_done 9 scenario_store))
         \<and> \<lparr>a_id = id' r, a_name = name run_10k_done,
             a_description = description run_10k_done,
             a_specific = specific run_10k_done, a_measurable = measurable run_10k_done,
             a_achievable = achievable run_10k_done, a_relevant = relevant run_10k_done,
             a_timebound = timebound run_10k_done,
             a_buddy_email = buddy_email run_10k_done,
             a_completed = 0, a_created_at = 9, a_updated_at = 9\<rparr> \<in> set rows
         \<and> set rows
             = insert \<lparr>a_id = id' r, a_name = name run_10k_done,
                       a_description = description run_10k_done,
                       a_specific = specific run_10k_done,
                       a_measurable = measurable run_10k_done,
                       a_achievable = achievable run_10k_done,
                       a_relevant = relevant run_10k_done,
                       a_timebound = timebound run_10k_done,
                       a_buddy_email = buddy_email run_10k_done,
                       a_completed = 0, a_created_at = 9, a_updated_at = 9\<rparr>
                 (set (activities_of scenario_store))
         \<and> sorted_wrt (\<lambda>x y. a_created_at x \<ge> a_created_at y) rows)
   \<and> fst (createActivity run_10k_done 9 scenario_store) = Inr \<lparr>id' = 2, changes = 1\<rparr>
   \<and> map a_id (projr (fst (getAllActivities
                              (snd (createActivity run_10k_done 9 scenario_store))))) = [2, 1]"
proof -
  have h1: "db scenario_store = Some scenario_connection"
    by (simp add: scenario_store_def)
  have h2: "is_open scenario_connection"
    by (simp add: scenario_connection_def)
  have h3: "name run_10k_done \<noteq> None" and h4: "specific run_10k_done \<noteq> None"
    and h5: "measurable run_10k_done \<noteq> None" and h6: "timebound run_10k_done \<noteq> None"
    by (simp_all add: run_10k_done_def)
  have e1: "fst (createActivity run_10k_done 9 scenario_store) = Inr \<lparr>id' = 2, changes = 1\<rparr>"
    by (simp add: createActivity_def run_def INSERT_INTO_activities_def next_rowid_def
        run_10k_done_def scenario_defs)
  have e2: "map a_id (projr (fst (getAllActivities
                                    (snd (createActivity run_10k_done 9 scenario_store)))))
            = [2, 1]"
    by (simp add: createActivity_def getAllActivities_def run_def all_def
        INSERT_INTO_activities_def SELECT_activities_def ORDER_BY_DESC_def next_rowid_def
        run_10k_done_def scenario_defs)
  show ?thesis
    using h1 h2 h3 h4 h5 h6 e1 e2
      createActivity_then_list [OF h1 h2 h3 h4 h5 h6, of 9]
    by blast
qed

subsection \<open>Updating an activity\<close>

lemma list_all2_map_self:
  "(\<And>x. x \<in> set xs \<Longrightarrow> P x (f x)) \<Longrightarrow> list_all2 P xs (map f xs)"
  by (induction xs) auto

lemma map_unchanged:
  "i \<notin> set (map a_id rows) \<Longrightarrow> map (\<lambda>r. if a_id r = i then f r else r) rows = rows"
  by (induction rows) auto

text \<open>
  The update sends \<open>completed = True\<close>, and the stored row keeps completed 0: the
  statement has no assignment to that column.
\<close>

theorem updateActivity_completed_counterexample:
  "completed run_10k_done = True
   \<and> map a_completed (activities_of scenario_store) = [0]
   \<and> fst (updateActivity 1 run_10k_done 9 scenario_store) = Inr \<lparr>id' = 1, changes = 1\<rparr>
   \<and> map a_name (activities_of (snd (updateActivity 1 run_10k_done 9 scenario_store)))
       = [Some ''Run 10k'']
   \<and> map a_completed (activities_of (snd (updateActivity 1 run_10k_done 9 scenario_store)))
       = [0]"
  by (simp add: updateActivity_def run_def UPDATE_activities_def activities_of_def
      run_10k_done_def scenario_defs)

text \<open>
  C6 (amended): on an open store, for every id and every field record whose name,
  specific, measurable and timebound are present (needed only when a row has the id),
  updateActivity completes normally and returns the number of activities with that id,
  which is 0 when there is none, and then the store is unchanged. In every row with the
  id it rewrites name, description, specific, measurable, achievable, relevant,
  timebound and buddy_email from the record and sets updated_at to the current time;
  id, completed and created_at of the row stay as they were, whatever the record says
  about completed. Other activities, the logs and the goals are untouched.
\<close>

theorem updateActivity_rewrites_fields:
  assumes "db s = Some c" and "is_open c"
    and "i \<in> set (map a_id (activities_of s)) \<longrightarrow>
           name a \<noteq> None \<and> specific a \<noteq> None \<and> measurable a \<noteq> None \<and> timebound a \<noteq> None"
  shows "fst (updateActivity i a now s)
           = Inr \<lparr>id' = last_insert_rowid c,
                  changes = length (filter (\<lambda>r. a_id r = i) (activities_of s))\<rparr>
         \<and> (i \<notin> set (map a_id (activities_of s)) \<longrightarrow>
               updateActivity i a now s = (Inr \<lparr>id' = last_insert_rowid c, changes = 0\<rparr>, s))
         \<and> list_all2
              (\<lambda>old new.
                 a_completed new = a_completed old \<and>
                 (if a_id old = i
                  then new = old\<lparr>a_name := name a, a_description := description a,
                                 a_specific := specific a, a_measurable := measurable a,
                                 a_achievable := achievable a, a_relevant := relevant a,
                                 a_timebound := timebound a,
                                 a_buddy_email := buddy_email a, a_updated_at := now\<rparr>
                  else new = old))
              (activities_of s) (activities_of (snd (updateActivity i a now s)))
         \<and> logs_of (snd (updateActivity i a now s)) = logs_of s
         \<and> goals_of (snd (updateActivity i a now s)) = goals_of s"
proof (cases "i \<in> set (map a_id (activities (content c)))")
  case True
  with assms show ?thesis
    by (simp add: updateActivity_def run_def UPDATE_activities_def activities_of_def
        logs_of_def goals_of_def Let_def list_all2_map_self)
next
  case False
  then have "filter (\<lambda>r. a_id r = i) (activities (content c)) = []"
    by (rule filter_id_none)
  with False assms(1,2) show ?thesis
    by (auto simp add: updateActivity_def run_def UPDATE_activities_def activities_of_def
        logs_of_def goals_of_def Let_def map_unchanged list_all2_same)
qed

text \<open>The activity of the concrete run rewritten at time 9, and an update of id 2.\<close>

theorem updateActivity_rewrites_fields_witness:
  "db scenario_store = Some scenario_connection \<and> is_open scenario_connection
   \<and> 1 \<in> set (map a_id (activities_of scenario_store))
   \<and> name run_10k_done \<noteq> None \<and> specific run_10k_done \<noteq> None
   \<and> measurable run_10k_done \<noteq> None \<and> timebound run_10k_done \<noteq> None
   \<and> fst (updateActivity 1 run_10k_done 9 scenario_store) = Inr \<lparr>id' = 1, changes = 1\<rparr>
   \<and> list_all2
        (\<lambda>old new.
           a_completed new = a_completed old \<and>
           (if a_id old = 1
            then new = old\<lparr>a_name := name run_10k_done,
                           a_description := description run_10k_done,
                           a_specific := specific run_10k_done,
                           a_measurable := measurable run_10k_done,
                           a_achievable := achievable run_10k_done,
                           a_relevant := relevant run_10k_done,
                           a_timebound := timebound run_10k_done,
                           a_buddy_email := buddy_email run_10k_done, a_updated_at := 9\<rparr>
            else new = old))
        (activities_of scenario_store)
        (activities_of (snd (updateActivity 1 run_10k_done 9 scenario_store)))
   \<and> 2 \<notin> set (map a_id (activities_of scenario_store))
   \<and> updateActivity 2 run_10k_done 9 scenario_store
       = (Inr \<lparr>id' = 1, changes = 0\<rparr>, scenario_store)"
proof -
  have h1: "db scenario_store = Some scenario_connection"
    by (simp add: scenario_store_def)
  have h2: "is_open scenario_connection"
    by (simp add: scenario_connection_def)
  have p: "name run_10k_done \<noteq> None \<and> specific run_10k_done \<noteq> None
           \<and> measurable run_10k_done \<noteq> None \<and> timebound run_10k_done \<noteq> None"
    by (simp add: run_10k_done_def)
  have m1: "1 \<in> set (map a_id (activities_of scenario_store))"
    and m2: "2 \<notin> set (map a_id (activities_of scenario_store))"
    by (simp_all add: activities_of_def scenario_defs)
  have h3: "i \<in> set (map a_id (activities_of scenario_store)) \<longrightarrow>
              name run_10k_done \<noteq> None \<and> specific run_10k_done \<noteq> None
              \<and> measurable run_10k_done \<noteq> None \<and> timebound run_10k_done \<noteq> None" for i
    using p by simp
  have n: "last_insert_rowid scenario_connection = 1
           \<and> length (filter (\<lambda>r. a_id r = 1) (activities_of scenario_store)) = 1"
    by (simp add: activities_of_def scenario_defs)
  show ?thesis
    using h1 h2 p m1 m2 n
      updateActivity_rewrites_fields [OF h1 h2 h3, of 1 9]
      updateActivity_rewrites_fields [OF h1 h2 h3, of 2 9]
    by simp
qed

subsection \<open>The required fields of stored activities\<close>

lemma run_keeps_valid:
  assumes "\<And>fk d inserted n d'.
             activities_valid d \<Longrightarrow> sql fk d = Inr (inserted, n, d') \<Longrightarrow> activities_valid d'"
    and "store_valid s"
  shows "store_valid (snd (run sql s))"
proof (cases "db s")
  case None
  with assms(2) show ?thesis by (simp add: run_def)
next
  case (Some c)
  show ?thesis
  proof (cases "sql (foreign_keys c) (content c)")
    case (Inl e)
    with Some assms(2) show ?thesis by (simp add: run_def)
  next
    case (Inr t)
    obtain inserted n d' where t: "t = (inserted, n, d')" by (cases t)
    from assms(2) Some have "activities_valid (content c)"
      by (simp add: store_valid_def)
    with assms(1) Inr t have "activities_valid d'"
      by blast
    with Some Inr t assms(2) show ?thesis
      by (simp add: run_def store_valid_def Let_def split: option.splits)
  qed
qed

lemma createActivity_keeps_valid:
  assumes "store_valid s"
  shows "store_valid (snd (createActivity a now s))"
  unfolding createActivity_def
proof (rule run_keeps_valid [OF _ assms])
  fix fk d inserted n d'
  assume "activities_valid d"
    and "INSERT_INTO_activities (name a) (description a) (specific a) (measurable a)
           (achievable a) (relevant a) (timebound a) (buddy_email a) now fk d
         = Inr (inserted, n, d')"
  then show "activities_valid d'"
    by (auto simp add: INSERT_INTO_activities_def activities_valid_def required_not_null_def
        Let_def split: if_splits)
qed

lemma updateActivity_keeps_valid:
  assumes "store_valid s"
  shows "store_valid (snd (updateActivity i a now s))"
  unfolding updateActivity_def
proof (rule run_keeps_valid [OF _ assms])
  fix fk d inserted n d'
  assume "activities_valid d"
    and "UPDATE_activities (name a) (description a) (specific a) (measurable a)
           (achievable a) (relevant a) (timebound a) (buddy_email a) i now fk d
         = Inr (inserted, n, d')"
  then show "activities_valid d'"
    by (auto simp add: UPDATE_activities_def activities_valid_def required_not_null_def
        Let_def list_all_iff filter_empty_conv split: if_splits)
qed

lemma deleteActivity_keeps_valid:
  assumes "store_valid s"
  shows "store_valid (snd (deleteActivity i s))"
  unfolding deleteActivity_def
proof (rule run_keeps_valid [OF _ assms])
  fix fk d inserted n d'
  assume "activities_valid d" and "DELETE_FROM_activities i fk d = Inr (inserted, n, d')"
  then show "activities_valid d'"
    by (auto simp add: DELETE_FROM_activities_def activities_valid_def Let_def list_all_iff)
qed

lemma createLog_keeps_valid:
  assumes "store_valid s"
  shows "store_valid (snd (createLog l now s))"
  unfolding createLog_def
proof (rule run_keeps_valid [OF _ assms])
  fix fk d inserted n d'
  assume "activities_valid d"
    and "INSERT_INTO_logs (log_activity_id l) (log_text l) (log_metrics l) now fk d
         = Inr (inserted, n, d')"
  then show "activities_valid d'"
    by (auto simp add: INSERT_INTO_logs_def activities_valid_def Let_def
        split: if_splits option.splits)
qed

lemma createGoal_keeps_valid:
  assumes "store_valid s"
  shows "store_valid (snd (createGoal g now s))"
  unfolding createGoal_def
proof (rule run_keeps_valid [OF _ assms])
  fix fk d inserted n d'
  assume "activities_valid d"
    and "INSERT_INTO_goals (goal_activity_id g) (goal_target_value g) (goal_target_date g)
           now fk d
         = Inr (inserted, n, d')"
  then show "activities_valid d'"
    by (auto simp add: INSERT_INTO_goals_def activities_valid_def Let_def
        split: if_splits option.splits sum.splits)
qed

lemma updateGoalProgress_keeps_valid:
  assumes "store_valid s"
  shows "store_valid (snd (updateGoalProgress goalId v s))"
proof -
  have "store_valid (snd (run (UPDATE_goals v b goalId) s))" for b
  proof (rule run_keeps_valid [OF _ assms])
    fix fk d inserted n d'
    assume "activities_valid d" and "UPDATE_goals v b goalId fk d = Inr (inserted, n, d')"
    then show "activities_valid d'"
      by (auto simp add: UPDATE_goals_def activities_valid_def split: sum.splits)
  qed
  with assms show ?thesis
    by (simp add: updateGoalProgress_def get_def split: option.splits)
qed

lemma exec_keeps_valid: "store_valid s \<Longrightarrow> store_valid (snd (exec sql s))"
  by (cases sql) (auto simp add: exec_def store_valid_def split: option.splits)

lemma rollback_and_rethrow_keeps_valid:
  "store_valid s \<Longrightarrow> store_valid (snd (rollback_and_rethrow e s))"
  using exec_keeps_valid [of s ROLLBACK]
  by (auto simp add: rollback_and_rethrow_def split: prod.splits sum.splits)

lemma transaction_keeps_valid:
  assumes "\<And>s1. store_valid s1 \<Longrightarrow> store_valid (snd (callback s1))" and "store_valid s"
  shows "store_valid (snd (transaction callback s))"
proof -
  obtain r1 s1 where b: "exec BEGIN_TRANSACTION s = (r1, s1)"
    by (cases "exec BEGIN_TRANSACTION s")
  have v1: "store_valid s1"
    using exec_keeps_valid [OF assms(2), of BEGIN_TRANSACTION] b by simp
  obtain r2 s2 where c: "callback s1 = (r2, s2)"
    by (cases "callback s1")
  have v2: "store_valid s2"
    using assms(1) [OF v1] c by simp
  obtain r3 s3 where d: "exec COMMIT s2 = (r3, s3)"
    by (cases "exec COMMIT s2")
  have v3: "store_valid s3"
    using exec_keeps_valid [OF v2, of COMMIT] d by simp
  show ?thesis
    using b c d v1 v2 v3
    by (simp add: transaction_def rollback_and_rethrow_keeps_valid split: sum.splits)
qed

lemma close_keeps_valid: "store_valid s \<Longrightarrow> store_valid (snd (close s))"
  by (auto simp add: close_def close_connection_def store_valid_def split: option.splits)

lemma perform_keeps_valid: "store_valid s \<Longrightarrow> store_valid (perform operation s)"
proof (induction operation s rule: perform.induct)
  case (8 ops thrown s)
  have inner: "store_valid (fold perform ops s1)" if "store_valid s1" for s1
    using that "8.IH"
  proof (induction ops arbitrary: s1)
    case Nil
    then show ?case by simp
  next
    case (Cons x xs)
    have "store_valid (perform x s1)"
      using Cons.prems by simp
    moreover have "\<And>y z. y \<in> set xs \<Longrightarrow> store_valid z \<Longrightarrow> store_valid (perform y z)"
      using Cons.prems(2) by simp
    ultimately show ?case
      using Cons.IH by simp
  qed
  show ?case
    using transaction_keeps_valid
      [of "\<lambda>s1. (case thrown of None \<Rightarrow> Inr () | Some e \<Rightarrow> Inl e, fold perform ops s1)" s]
      inner "8.prems"
    by simp
qed (simp_all add: createActivity_keeps_valid updateActivity_keeps_valid
      deleteActivity_keeps_valid createLog_keeps_valid createGoal_keeps_valid
      updateGoalProgress_keeps_valid close_keeps_valid)

lemma fold_perform_keeps_valid: "store_valid s \<Longrightarrow> store_valid (fold perform ops s)"
  by (induction ops arbitrary: s) (simp_all add: perform_keeps_valid)

text \<open>
  An activity whose four required texts are the empty string is accepted and stored
  as it is: the schema only forbids NULL.
\<close>

theorem createActivity_empty_text_counterexample:
  "fst (createActivity blank_activity 5 fresh_store) = Inr \<lparr>id' = 1, changes = 1\<rparr>
   \<and> map a_name (activities_of (snd (createActivity blank_activity 5 fresh_store))) = [Some []]
   \<and> map a_specific (activities_of (snd (createActivity blank_activity 5 fresh_store)))
       = [Some []]
   \<and> map a_measurable (activities_of (snd (createActivity blank_activity 5 fresh_store)))
       = [Some []]
   \<and> map a_timebound (activities_of (snd (createActivity blank_activity 5 fresh_store)))
       = [Some []]"
  by (simp add: fresh_store_eq createActivity_def run_def INSERT_INTO_activities_def
      activities_of_def blank_activity_def empty_database_def next_rowid_def)

text \<open>
  C8 (amended): every stored activity has name, specific, measurable and timebound
  that are not NULL (they may be empty strings). Starting from a store whose rows are
  so (a store opened on a new file is), this holds after every sequence of calls of
  the store's methods, units of work run by transaction included; and createActivity
  with one of the four fields missing fails with the NOT NULL constraint error and
  stores nothing.
\<close>

theorem required_fields_not_null:
  assumes "store_valid s"
  shows "list_all required_not_null (activities_of (fold perform ops s))
         \<and> (name a = None \<or> specific a = None \<or> measurable a = None \<or> timebound a = None
            \<longrightarrow> isl (fst (createActivity a now s)) \<and> snd (createActivity a now s) = s)
         \<and> (name a = None \<or> specific a = None \<or> measurable a = None \<or> timebound a = None
            \<longrightarrow> (\<forall>c. db s = Some c \<and> is_open c
                  \<longrightarrow> fst (createActivity a now s) = Inl (SqliteError SQLITE_CONSTRAINT_NOTNULL)))"
proof -
  have "store_valid (fold perform ops s)"
    using assms by (rule fold_perform_keeps_valid)
  then have "list_all required_not_null (activities_of (fold perform ops s))"
    by (simp add: store_valid_def activities_of_def activities_valid_def split: option.splits)
  moreover have "isl (fst (createActivity a now s)) \<and> snd (createActivity a now s) = s"
    if "name a = None \<or> specific a = None \<or> measurable a = None \<or> timebound a = None"
    using that
    by (auto simp add: createActivity_def run_def INSERT_INTO_activities_def
        split: option.splits)
  moreover have "fst (createActivity a now s) = Inl (SqliteError SQLITE_CONSTRAINT_NOTNULL)"
    if "name a = None \<or> specific a = None \<or> measurable a = None \<or> timebound a = None"
      and "db s = Some c" and "is_open c" for c
    using that by (auto simp add: createActivity_def run_def INSERT_INTO_activities_def)
  ultimately show ?thesis by blast
qed

text \<open>
  In the concrete run: an activity with empty texts is added, one without a name is
  refused, one added by a unit of work that throws is rolled back, and the first one
  is rewritten.
\<close>

theorem required_fields_not_null_witness:
  "store_valid scenario_store
   \<and> name (run_5k\<lparr>name := None\<rparr>) = None
   \<and> db scenario_store = Some scenario_connection \<and> is_open scenario_connection
   \<and> list_all required_not_null
        (activities_of
           (fold perform
              [CreateActivity blank_activity 8,
               CreateActivity (run_5k\<lparr>name := None\<rparr>) 9,
               Transaction [CreateActivity run_5k 10] (Some (Error ''stop'')),
               UpdateActivity 1 run_10k_done 11]
              scenario_store))
   \<and> map a_name
        (activities_of
           (fold perform
              [CreateActivity blank_activity 8,
               CreateActivity (run_5k\<lparr>name := None\<rparr>) 9,
               Transaction [CreateActivity run_5k 10] (Some (Error ''stop'')),
               UpdateActivity 1 run_10k_done 11]
              scenario_store))
       = [Some ''Run 10k'', Some []]
   \<and> createActivity (run_5k\<lparr>name := None\<rparr>) 9 scenario_store
       = (Inl (SqliteError SQLITE_CONSTRAINT_NOTNULL), scenario_store)"
proof -
  let ?ops = "[CreateActivity blank_activity 8,
               CreateActivity (run_5k\<lparr>name := None\<rparr>) 9,
               Transaction [CreateActivity run_5k 10] (Some (Error ''stop'')),
               UpdateActivity 1 run_10k_done 11]"
  have h: "store_valid scenario_store"
    by (simp add: store_valid_def activities_valid_def required_not_null_def scenario_defs)
  have h1: "db scenario_store = Some scenario_connection"
    by (simp add: scenario_store_def)
  have h2: "is_open scenario_connection"
    by (simp add: scenario_connection_def)
  have m: "name (run_5k\<lparr>name := None\<rparr>) = None"
    by simp
  have e: "map a_name (activities_of (fold perform ?ops scenario_store))
           = [Some ''Run 10k'', Some []]"
    by (simp add: createActivity_def updateActivity_def run_def transaction_def exec_def
        rollback_and_rethrow_def INSERT_INTO_activities_def UPDATE_activities_def
        next_rowid_def activities_of_def blank_activity_def run_5k_def run_10k_done_def
        scenario_defs)
  have t: "list_all required_not_null (activities_of (fold perform ?ops scenario_store))
           \<and> isl (fst (createActivity (run_5k\<lparr>name := None\<rparr>) 9 scenario_store))
           \<and> snd (createActivity (run_5k\<lparr>name := None\<rparr>) 9 scenario_store) = scenario_store
           \<and> fst (createActivity (run_5k\<lparr>name := None\<rparr>) 9 scenario_store)
               = Inl (SqliteError SQLITE_CONSTRAINT_NOTNULL)"
    using required_fields_not_null [OF h, of ?ops "run_5k\<lparr>name := None\<rparr>" 9] m h1 h2
    by blast
  have c: "createActivity (run_5k\<lparr>name := None\<rparr>) 9 scenario_store
           = (Inl (SqliteError SQLITE_CONSTRAINT_NOTNULL), scenario_store)"
    using t by (simp add: prod_eq_iff)
  show ?thesis
    using h h1 h2 m e t c by blast
qed

subsection \<open>close\<close>

text \<open>
  C10: close on a store that was never initialised (its handle is still null, as the
  constructor leaves it) returns normally and changes nothing.
\<close>

theorem close_uninitialised:
  "db constructor = None \<and> close constructor = (Inr (), constructor)"
  by (simp add: close_def constructor_def)

end
